theory Spec2Isabelle
  imports Main "HOL-Library.AList"
begin

section \<open>Errors\<close>

text \<open>
  The source throws JavaScript \<open>Error\<close> objects. An exception is a value of the left
  summand of the result type: \<open>Error msg\<close> is an \<open>Error\<close> carrying its message,
  \<open>SyntaxError\<close> is what the host's \<open>JSON.parse\<close> throws.
\<close>

datatype error = Error string | SyntaxError string

section \<open>CSS selector builder\<close>

text \<open>
  \<open>cssSelectorBuilder\<close> is an object literal with the data properties \<open>total\<close>,
  \<open>prev\<close>, \<open>elOc\<close>, \<open>idOc\<close>, \<open>pElOc\<close>, \<open>erAlrOc\<close>, \<open>erWOrd\<close> and eight methods.
  Every method reads \<open>this\<close> and returns a fresh object literal \<open>{...this, ...}\<close>; the
  methods are copied by the spread unchanged, so a builder is the record of its data
  properties and a method is a function of the receiver. A \<open>throw\<close> is an \<open>Inl\<close>.
  The argument \<open>value\<close> is interpolated into a template literal; it is a string here.
\<close>

record builder =
  total :: string
  prev :: string
  elOc :: bool
  idOc :: bool
  pElOc :: bool
  erAlrOc :: error
  erWOrd :: error

definition cssSelectorBuilder :: builder where
  "cssSelectorBuilder =
     \<lparr> total = '''', prev = '''', elOc = False, idOc = False, pElOc = False,
       erAlrOc = Error ''Element, id and pseudo-element should not occur more then one time inside the selector'',
       erWOrd = Error ''Selector parts should be arranged in the following order: element, id, class, attribute, pseudo-class, pseudo-element'' \<rparr>"

definition element :: "builder \<Rightarrow> string \<Rightarrow> error + builder" where
  "element this val =
     (if elOc this then Inl (erAlrOc this)
      else if prev this \<noteq> '''' then Inl (erWOrd this)
      else Inr (this\<lparr> prev := ''elem'', elOc := True, total := total this @ val \<rparr>))"

definition id' :: "builder \<Rightarrow> string \<Rightarrow> error + builder" where
  "id' this val =
     (if idOc this then Inl (erAlrOc this)
      else if prev this = ''class'' \<or> prev this = ''pseudoElem'' then Inl (erWOrd this)
      else Inr (this\<lparr> prev := ''id'', idOc := True, total := total this @ ''#'' @ val \<rparr>))"

definition class' :: "builder \<Rightarrow> string \<Rightarrow> error + builder" where
  "class' this val =
     (if prev this = ''attr'' then Inl (erWOrd this)
      else Inr (this\<lparr> prev := ''class'', total := total this @ ''.'' @ val \<rparr>))"

definition attr :: "builder \<Rightarrow> string \<Rightarrow> error + builder" where
  "attr this val =
     (if prev this = ''pseudoClass'' then Inl (erWOrd this)
      else Inr (this\<lparr> prev := ''attr'', total := total this @ ''['' @ val @ '']'' \<rparr>))"

definition pseudoClass :: "builder \<Rightarrow> string \<Rightarrow> error + builder" where
  "pseudoClass this val =
     (if prev this = ''pseudoElem'' then Inl (erWOrd this)
      else Inr (this\<lparr> prev := ''pseudoClass'', total := total this @ '':'' @ val \<rparr>))"

definition pseudoElement :: "builder \<Rightarrow> string \<Rightarrow> error + builder" where
  "pseudoElement this val =
     (if pElOc this then Inl (erAlrOc this)
      else Inr (this\<lparr> prev := ''pseudoElem'', pElOc := True, total := total this @ ''::'' @ val \<rparr>))"

text \<open>\<open>combine\<close> has no \<open>throw\<close>: its result is a builder, not a sum.\<close>

definition combine :: "builder \<Rightarrow> builder \<Rightarrow> string \<Rightarrow> builder \<Rightarrow> builder" where
  "combine this selector1 combinator selector2 =
     this\<lparr> total := total selector1 @ '' '' @ combinator @ '' '' @ total selector2 \<rparr>"

definition stringify :: "builder \<Rightarrow> string" where
  "stringify this = total this"

subsection \<open>Call chains\<close>

text \<open>
  A chain \<open>b.m1(v1).m2(v2)...\<close> is a list of calls run from left to right; the first
  exception ends it, as the \<open>throw\<close> does in the source. The two selectors passed to
  \<open>combine\<close> are of type \<open>'r\<close>: builders here, addresses in the store below.
\<close>

datatype 'r call =
    Element string
  | Id string
  | Class string
  | Attr string
  | PseudoClass string
  | PseudoElement string
  | Combine 'r string 'r

fun invoke :: "builder \<Rightarrow> builder call \<Rightarrow> error + builder" where
  "invoke b (Element v) = element b v"
| "invoke b (Id v) = id' b v"
| "invoke b (Class v) = class' b v"
| "invoke b (Attr v) = attr b v"
| "invoke b (PseudoClass v) = pseudoClass b v"
| "invoke b (PseudoElement v) = pseudoElement b v"
| "invoke b (Combine s1 c s2) = Inr (combine b s1 c s2)"

fun chain :: "builder \<Rightarrow> builder call list \<Rightarrow> error + builder" where
  "chain b [] = Inr b"
| "chain b (c # cs) = (case invoke b c of Inl e \<Rightarrow> Inl e | Inr b' \<Rightarrow> chain b' cs)"

text \<open>The calls that add a fragment are all but \<open>combine\<close>.\<close>

fun is_add :: "'r call \<Rightarrow> bool" where
  "is_add (Combine s1 c s2) = False"
| "is_add _ = True"

fun is_element :: "'r call \<Rightarrow> bool" where
  "is_element (Element v) = True"
| "is_element _ = False"

subsection \<open>The store\<close>

text \<open>
  JavaScript objects are references, and a method may assign to a property of any
  object it can reach. The store is the list of the builder objects allocated so far,
  an address is an index into it, and a method is a function from the store, the
  address of its receiver and its arguments to the new store and either the error
  thrown or the address returned. In this reading
  \<^item> \<open>const {elOc, prev} = this\<close> and \<open>selector1.total\<close> read the store: \<open>h ! this\<close>, \<open>h ! s1\<close>;
  \<^item> an object literal \<open>{...this, prev: 'elem'}\<close> is a copy of the receiver with the listed
    properties replaced, stored at the next free address (\<open>new_object\<close>);
  \<^item> \<open>throw\<close> leaves the store as it is (\<open>throw_error\<close>);
  \<^item> an assignment \<open>this.total = v\<close> would be the update
    \<open>h[this := (h ! this)\<lparr>total := v\<rparr>]\<close>.
  Each method below is the source method statement by statement.
\<close>

type_synonym store = "builder list"

definition new_object :: "store \<Rightarrow> builder \<Rightarrow> store \<times> (error + nat)" where
  "new_object h obj = (h @ [obj], Inr (length h))"

definition throw_error :: "store \<Rightarrow> error \<Rightarrow> store \<times> (error + nat)" where
  "throw_error h e = (h, Inl e)"

definition element_st :: "store \<Rightarrow> nat \<Rightarrow> string \<Rightarrow> store \<times> (error + nat)" where
  "element_st h this val =
     (if elOc (h ! this) then throw_error h (erAlrOc (h ! this))
      else if prev (h ! this) \<noteq> '''' then throw_error h (erWOrd (h ! this))
      else new_object h
             ((h ! this)\<lparr> prev := ''elem'', elOc := True, total := total (h ! this) @ val \<rparr>))"

definition id_st :: "store \<Rightarrow> nat \<Rightarrow> string \<Rightarrow> store \<times> (error + nat)" where
  "id_st h this val =
     (if idOc (h ! this) then throw_error h (erAlrOc (h ! this))
      else if prev (h ! this) = ''class'' \<or> prev (h ! this) = ''pseudoElem''
      then throw_error h (erWOrd (h ! this))
      else new_object h
             ((h ! this)\<lparr> prev := ''id'', idOc := True,
                           total := total (h ! this) @ ''#'' @ val \<rparr>))"

definition class_st :: "store \<Rightarrow> nat \<Rightarrow> string \<Rightarrow> store \<times> (error + nat)" where
  "class_st h this val =
     (if prev (h ! this) = ''attr'' then throw_error h (erWOrd (h ! this))
      else new_object h
             ((h ! this)\<lparr> prev := ''class'', total := total (h ! this) @ ''.'' @ val \<rparr>))"

definition attr_st :: "store \<Rightarrow> nat \<Rightarrow> string \<Rightarrow> store \<times> (error + nat)" where
  "attr_st h this val =
     (if prev (h ! this) = ''pseudoClass'' then throw_error h (erWOrd (h ! this))
      else new_object h
             ((h ! this)\<lparr> prev := ''attr'',
                           total := total (h ! this) @ ''['' @ val @ '']'' \<rparr>))"

definition pseudoClass_st :: "store \<Rightarrow> nat \<Rightarrow> string \<Rightarrow> store \<times> (error + nat)" where
  "pseudoClass_st h this val =
     (if prev (h ! this) = ''pseudoElem'' then throw_error h (erWOrd (h ! this))
      else new_object h
             ((h ! this)\<lparr> prev := ''pseudoClass'',
                           total := total (h ! this) @ '':'' @ val \<rparr>))"

definition pseudoElement_st :: "store \<Rightarrow> nat \<Rightarrow> string \<Rightarrow> store \<times> (error + nat)" where
  "pseudoElement_st h this val =
     (if pElOc (h ! this) then throw_error h (erAlrOc (h ! this))
      else new_object h
             ((h ! this)\<lparr> prev := ''pseudoElem'', pElOc := True,
                           total := total (h ! this) @ ''::'' @ val \<rparr>))"

definition combine_st ::
  "store \<Rightarrow> nat \<Rightarrow> nat \<Rightarrow> string \<Rightarrow> nat \<Rightarrow> store \<times> (error + nat)" where
  "combine_st h this selector1 combinator selector2 =
     new_object h
       ((h ! this)\<lparr> total := total (h ! selector1) @ '' '' @ combinator @ '' ''
                                @ total (h ! selector2) \<rparr>)"

definition stringify_st :: "store \<Rightarrow> nat \<Rightarrow> store \<times> string" where
  "stringify_st h this = (h, total (h ! this))"

text \<open>A method call on the receiver at an address, and the value it yields.\<close>

fun send :: "store \<Rightarrow> nat \<Rightarrow> nat call \<Rightarrow> store \<times> (error + nat)" where
  "send h this (Element v) = element_st h this v"
| "send h this (Id v) = id_st h this v"
| "send h this (Class v) = class_st h this v"
| "send h this (Attr v) = attr_st h this v"
| "send h this (PseudoClass v) = pseudoClass_st h this v"
| "send h this (PseudoElement v) = pseudoElement_st h this v"
| "send h this (Combine s1 c s2) = combine_st h this s1 c s2"

definition outcome :: "store \<Rightarrow> nat \<Rightarrow> nat call \<Rightarrow> error + builder" where
  "outcome h this c =
     (case send h this c of (h', Inl e) \<Rightarrow> Inl e | (h', Inr a) \<Rightarrow> Inr (h' ! a))"

section \<open>Rectangle\<close>

text \<open>
  \<open>new Rectangle(width, height)\<close> stores the two arguments and a closure
  \<open>getArea = () => this.width * this.height\<close>, which reads both properties of the object
  when it is called. The object is the record of its two data properties and \<open>getArea\<close>
  a function of the object's current state. The code never inspects the numbers, so
  their type is any type with a multiplication.
\<close>

record 'a rectangle =
  width :: 'a
  height :: 'a

definition Rectangle :: "'a \<Rightarrow> 'a \<Rightarrow> 'a rectangle" where
  "Rectangle w h = \<lparr> width = w, height = h \<rparr>"

definition getArea :: "('a::times) rectangle \<Rightarrow> 'a" where
  "getArea this = width this * height this"

section \<open>JSON helpers\<close>

text \<open>
  A parsed JSON text is a plain value. The code copies numbers and never computes
  with them: their type is the parameter \<open>'n\<close>. An object is the list of its own
  enumerable properties in the host's enumeration order.
\<close>

datatype 'n jsval =
    JNull
  | JBool bool
  | JNum 'n
  | JStr string
  | JArr "'n jsval list"
  | JObj "(string \<times> 'n jsval) list"

text \<open>
  \<open>getJSON\<close> and \<open>fromJSON\<close> delegate to the host's \<open>JSON.stringify\<close> and \<open>JSON.parse\<close>,
  which are parameters here. \<open>JSON.parse\<close> either throws or returns a plain value.
\<close>

definition getJSON :: "('a \<Rightarrow> string) \<Rightarrow> 'a \<Rightarrow> string" where
  "getJSON JSON_stringify obj = JSON_stringify obj"

text \<open>
  The object \<open>fromJSON\<close> returns has a prototype link and own properties. Its prototype
  is the \<open>proto\<close> argument (a prototype object such as \<open>Circle.prototype\<close>, given by the
  names of the methods it defines, and itself inheriting from \<open>Object.prototype\<close>), or,
  once the link has been reassigned, a plain value or \<open>null\<close>.
\<close>

datatype 'n prototype = ProtoNull | ProtoOf "string list" | ProtoVal "'n jsval"

record 'n jsobj =
  proto :: "'n prototype"
  own :: "(string \<times> 'n jsval) list"

text \<open>Decimal notation of an array index, as ECMAScript's property keys have it.\<close>

function show_nat :: "nat \<Rightarrow> string" where
  "show_nat n =
     (if n < 10 then [''0123456789'' ! n]
      else show_nat (n div 10) @ [''0123456789'' ! (n mod 10)])"
  by pat_completeness auto
termination
  by (relation "measure (\<lambda>n. n)") auto

text \<open>
  \<open>Object.assign(target, source)\<close> enumerates the own enumerable properties of
  \<open>ToObject(source)\<close>: the members of an object, the elements of an array under their
  indices, the characters of a string under their indices, nothing for \<open>null\<close>, a
  boolean or a number.
\<close>

fun ownProps :: "'n jsval \<Rightarrow> (string \<times> 'n jsval) list" where
  "ownProps (JObj kvs) = kvs"
| "ownProps (JArr xs) = zip (map show_nat [0..<length xs]) xs"
| "ownProps (JStr s) = zip (map show_nat [0..<length s]) (map (\<lambda>c. JStr [c]) s)"
| "ownProps _ = []"

text \<open>
  \<open>Object.assign\<close> stores each property with the ordinary assignment \<open>target[key] = v\<close>.
  An assignment first looks the key up along the prototype chain. \<open>Object.prototype\<close>
  defines the accessor \<open>__proto__\<close>, whose setter replaces the prototype link of the
  receiver when the value is an object or \<open>null\<close> and does nothing otherwise; it is
  reached unless the receiver or an object before \<open>Object.prototype\<close> on the chain
  has a property of that name. Every other key becomes an own data property.
\<close>

fun inherits_proto_setter :: "'n prototype \<Rightarrow> bool" where
  "inherits_proto_setter ProtoNull = False"
| "inherits_proto_setter (ProtoOf ms) = (''__proto__'' \<notin> set ms)"
| "inherits_proto_setter (ProtoVal v) = (''__proto__'' \<notin> fst ` set (ownProps v))"

fun set_proto :: "'n jsobj \<Rightarrow> 'n jsval \<Rightarrow> 'n jsobj" where
  "set_proto obj JNull = obj\<lparr> proto := ProtoNull \<rparr>"
| "set_proto obj (JArr xs) = obj\<lparr> proto := ProtoVal (JArr xs) \<rparr>"
| "set_proto obj (JObj kvs) = obj\<lparr> proto := ProtoVal (JObj kvs) \<rparr>"
| "set_proto obj _ = obj"

definition assign_prop :: "'n jsobj \<Rightarrow> string \<Rightarrow> 'n jsval \<Rightarrow> 'n jsobj" where
  "assign_prop obj k v =
     (if k = ''__proto__'' \<and> k \<notin> fst ` set (own obj) \<and> inherits_proto_setter (proto obj)
      then set_proto obj v
      else obj\<lparr> own := AList.update k v (own obj) \<rparr>)"

definition Object_assign :: "'n jsobj \<Rightarrow> 'n jsval \<Rightarrow> 'n jsobj" where
  "Object_assign target source = fold (\<lambda>(k, v) t. assign_prop t k v) (ownProps source) target"

text \<open>
  \<open>new constructor()\<close> with \<open>constructor.prototype = proto\<close> and an empty body is an
  object with that prototype and no own property.
\<close>

definition fromJSON ::
  "(string \<Rightarrow> error + 'n jsval) \<Rightarrow> string list \<Rightarrow> string \<Rightarrow> error + 'n jsobj" where
  "fromJSON JSON_parse proto_arg json =
     (case JSON_parse json of
        Inl e \<Rightarrow> Inl e
      | Inr obj \<Rightarrow> Inr (Object_assign \<lparr> proto = ProtoOf proto_arg, own = [] \<rparr> obj))"

section \<open>Properties of the selector builder\<close>

lemmas builder_defs =
  element_def id'_def class'_def attr_def pseudoClass_def pseudoElement_def
  combine_def stringify_def

subsection \<open>What a successful call keeps and changes\<close>

lemma invoke_errors_kept:
  "invoke b c = Inr b' \<Longrightarrow> erAlrOc b' = erAlrOc b \<and> erWOrd b' = erWOrd b"
  by (cases c) (auto simp: builder_defs split: if_splits)

lemma invoke_elOc:
  "invoke b c = Inr b' \<Longrightarrow> elOc b' = (elOc b \<or> is_element c)"
  by (cases c) (auto simp: builder_defs split: if_splits)

lemma invoke_prev_empty:
  "invoke b c = Inr b' \<Longrightarrow> (prev b' = '''') = (prev b = '''' \<and> \<not> is_add c)"
  by (cases c) (auto simp: builder_defs split: if_splits)

lemma chain_Cons_Inr:
  assumes "chain b (c # cs) = Inr b'"
  obtains b1 where "invoke b c = Inr b1" and "chain b1 cs = Inr b'"
  using assms by (auto split: sum.splits)

lemma chain_errors_kept:
  "chain b cs = Inr b' \<Longrightarrow> erAlrOc b' = erAlrOc b \<and> erWOrd b' = erWOrd b"
proof (induction cs arbitrary: b)
  case Nil
  then show ?case by simp
next
  case (Cons c cs)
  from Cons.prems obtain b1 where s: "invoke b c = Inr b1" and r: "chain b1 cs = Inr b'"
    by (rule chain_Cons_Inr)
  from Cons.IH [OF r] invoke_errors_kept [OF s] show ?case by simp
qed

lemma chain_elOc:
  "chain b cs = Inr b' \<Longrightarrow> elOc b' = (elOc b \<or> list_ex is_element cs)"
proof (induction cs arbitrary: b)
  case Nil
  then show ?case by simp
next
  case (Cons c cs)
  from Cons.prems obtain b1 where s: "invoke b c = Inr b1" and r: "chain b1 cs = Inr b'"
    by (rule chain_Cons_Inr)
  from Cons.IH [OF r] invoke_elOc [OF s] show ?case by auto
qed

lemma chain_prev_empty:
  "chain b cs = Inr b' \<Longrightarrow> (prev b' = '''') = (prev b = '''' \<and> \<not> list_ex is_add cs)"
proof (induction cs arbitrary: b)
  case Nil
  then show ?case by simp
next
  case (Cons c cs)
  from Cons.prems obtain b1 where s: "invoke b c = Inr b1" and r: "chain b1 cs = Inr b'"
    by (rule chain_Cons_Inr)
  from Cons.IH [OF r] invoke_prev_empty [OF s] show ?case by auto
qed

subsection \<open>The order checks the methods make\<close>

text \<open>
  Each method compares \<open>prev\<close> with one or two fixed category names. These lemmas say
  exactly when a call is accepted.
\<close>

lemma id_accepted_iff:
  "(\<exists>r. id' b v = Inr r) \<longleftrightarrow> \<not> idOc b \<and> prev b \<noteq> ''class'' \<and> prev b \<noteq> ''pseudoElem''"
  by (simp add: id'_def)

lemma class_accepted_iff:
  "(\<exists>r. class' b v = Inr r) \<longleftrightarrow> prev b \<noteq> ''attr''"
  by (simp add: class'_def)

lemma attr_accepted_iff:
  "(\<exists>r. attr b v = Inr r) \<longleftrightarrow> prev b \<noteq> ''pseudoClass''"
  by (simp add: attr_def)

lemma pseudoClass_accepted_iff:
  "(\<exists>r. pseudoClass b v = Inr r) \<longleftrightarrow> prev b \<noteq> ''pseudoElem''"
  by (simp add: pseudoClass_def)

lemma pseudoElement_accepted_iff:
  "(\<exists>r. pseudoElement b v = Inr r) \<longleftrightarrow> \<not> pElOc b"
  by (simp add: pseudoElement_def)

text \<open>
  C1. The claim: the categories of a chain are non-decreasing in the rank order
  element, id, class, attribute, pseudo-class, pseudo-element, so that \<open>class()\<close> after
  \<open>pseudoClass()\<close> or \<open>pseudoElement()\<close> and \<open>attr()\<close> after \<open>pseudoElement()\<close> throw the
  order error. The code runs all three chains to the end: \<open>class\<close> only rejects
  \<open>prev = attr\<close> and \<open>attr\<close> only rejects \<open>prev = pseudoClass\<close>.
\<close>

theorem lower_rank_after_higher_accepted:
  "chain cssSelectorBuilder [PseudoClass ''hover'', Class ''c''] =
     Inr (cssSelectorBuilder\<lparr> total := '':hover.c'', prev := ''class'' \<rparr>)
   \<and> chain cssSelectorBuilder [PseudoElement ''after'', Class ''c''] =
     Inr (cssSelectorBuilder\<lparr> total := ''::after.c'', prev := ''class'', pElOc := True \<rparr>)
   \<and> chain cssSelectorBuilder [PseudoElement ''after'', Attr ''x''] =
     Inr (cssSelectorBuilder\<lparr> total := ''::after[x]'', prev := ''attr'', pElOc := True \<rparr>)"
  by (simp add: builder_defs cssSelectorBuilder_def)

text \<open>
  C2. The claim: \<open>id()\<close> throws the order error whenever the last category is class,
  attribute, pseudo-class or pseudo-element, in particular \<open>attr(x).id(y)\<close> and
  \<open>pseudoClass(x).id(y)\<close>. The code accepts both chains: \<open>id\<close> only rejects
  \<open>prev = class\<close> and \<open>prev = pseudoElem\<close>.
\<close>

theorem id_after_attr_or_pseudoClass_accepted:
  "chain cssSelectorBuilder [Attr ''x'', Id ''y''] =
     Inr (cssSelectorBuilder\<lparr> total := ''[x]#y'', prev := ''id'', idOc := True \<rparr>)
   \<and> chain cssSelectorBuilder [PseudoClass ''x'', Id ''y''] =
     Inr (cssSelectorBuilder\<lparr> total := '':x#y'', prev := ''id'', idOc := True \<rparr>)"
  by (simp add: builder_defs cssSelectorBuilder_def)

subsection \<open>The methods and the store\<close>

lemmas store_defs =
  new_object_def throw_error_def element_st_def id_st_def class_st_def attr_st_def
  pseudoClass_st_def pseudoElement_st_def combine_st_def

text \<open>
  The methods on the store compute what the methods on builder values compute: the
  value at the address returned is the builder \<open>invoke\<close> returns.
\<close>

lemma send_invoke:
  "send h this c =
     (case invoke (h ! this) (map_call (\<lambda>a. h ! a) c) of
        Inl e \<Rightarrow> (h, Inl e)
      | Inr b \<Rightarrow> (h @ [b], Inr (length h)))"
  by (cases c) (simp_all add: store_defs builder_defs)

lemma outcome_invoke:
  "outcome h this c = invoke (h ! this) (map_call (\<lambda>a. h ! a) c)"
  by (simp add: outcome_def send_invoke split: sum.splits)

text \<open>
  What each method does to the store: nothing when it throws, one object added at the
  end when it returns.
\<close>

lemma element_st_store:
  "element_st h this v = (h', r) \<Longrightarrow>
     (h' = h \<and> (\<exists>e. r = Inl e)) \<or> (\<exists>b. h' = h @ [b] \<and> r = Inr (length h))"
  by (auto simp: element_st_def new_object_def throw_error_def split: if_splits)

lemma id_st_store:
  "id_st h this v = (h', r) \<Longrightarrow>
     (h' = h \<and> (\<exists>e. r = Inl e)) \<or> (\<exists>b. h' = h @ [b] \<and> r = Inr (length h))"
  by (auto simp: id_st_def new_object_def throw_error_def split: if_splits)

lemma class_st_store:
  "class_st h this v = (h', r) \<Longrightarrow>
     (h' = h \<and> (\<exists>e. r = Inl e)) \<or> (\<exists>b. h' = h @ [b] \<and> r = Inr (length h))"
  by (auto simp: class_st_def new_object_def throw_error_def split: if_splits)

lemma attr_st_store:
  "attr_st h this v = (h', r) \<Longrightarrow>
     (h' = h \<and> (\<exists>e. r = Inl e)) \<or> (\<exists>b. h' = h @ [b] \<and> r = Inr (length h))"
  by (auto simp: attr_st_def new_object_def throw_error_def split: if_splits)

lemma pseudoClass_st_store:
  "pseudoClass_st h this v = (h', r) \<Longrightarrow>
     (h' = h \<and> (\<exists>e. r = Inl e)) \<or> (\<exists>b. h' = h @ [b] \<and> r = Inr (length h))"
  by (auto simp: pseudoClass_st_def new_object_def throw_error_def split: if_splits)

lemma pseudoElement_st_store:
  "pseudoElement_st h this v = (h', r) \<Longrightarrow>
     (h' = h \<and> (\<exists>e. r = Inl e)) \<or> (\<exists>b. h' = h @ [b] \<and> r = Inr (length h))"
  by (auto simp: pseudoElement_st_def new_object_def throw_error_def split: if_splits)

lemma combine_st_store:
  "combine_st h this s1 t s2 = (h', r) \<Longrightarrow> \<exists>b. h' = h @ [b] \<and> r = Inr (length h)"
  by (auto simp: combine_st_def new_object_def)

lemma send_store:
  assumes "send h this c = (h', r)"
  shows "(h' = h \<and> (\<exists>e. r = Inl e)) \<or> (\<exists>b. h' = h @ [b] \<and> r = Inr (length h))"
proof (cases c)
  case (Element v)
  with assms show ?thesis using element_st_store [of h this v h' r] by simp
next
  case (Id v)
  with assms show ?thesis using id_st_store [of h this v h' r] by simp
next
  case (Class v)
  with assms show ?thesis using class_st_store [of h this v h' r] by simp
next
  case (Attr v)
  with assms show ?thesis using attr_st_store [of h this v h' r] by simp
next
  case (PseudoClass v)
  with assms show ?thesis using pseudoClass_st_store [of h this v h' r] by simp
next
  case (PseudoElement v)
  with assms show ?thesis using pseudoElement_st_store [of h this v h' r] by simp
next
  case (Combine s1 t s2)
  with assms show ?thesis using combine_st_store [of h this s1 t s2 h' r] by simp
qed

lemma stringify_st_store:
  "stringify_st h this = (h, stringify (h ! this))"
  by (simp add: stringify_st_def stringify_def)

text \<open>
  The store does not make this so: a function of the type of a method may as well
  overwrite its receiver. That the methods of the source do not is read off their
  bodies, in the lemmas above.
\<close>

lemma store_admits_assignment:
  "\<exists>(m :: store \<Rightarrow> nat \<Rightarrow> string \<Rightarrow> store \<times> (error + nat)) h this v.
     this < length h \<and> fst (m h this v) ! this \<noteq> h ! this"
proof (intro exI)
  show "(0::nat) < length [cssSelectorBuilder]
      \<and> fst ((\<lambda>h this v. (h[this := (h ! this)\<lparr> total := v \<rparr>], Inr this))
             [cssSelectorBuilder] 0 ''x'') ! 0 \<noteq> [cssSelectorBuilder] ! 0"
    by (simp add: cssSelectorBuilder_def)
qed

text \<open>
  C3. The six add-operations and \<open>combine\<close> do not change an object that exists. For
  every store, every receiver address \<open>this\<close> in it and every call, whether the call
  throws or returns: every object of the store is afterwards what it was before, so
  \<open>stringify\<close> of the receiver returns the same text before and after; a call that
  returns gives a new address, different from the receiver, that holds the builder
  the method computes from the receiver; and any further call on the receiver yields
  what it would have yielded before, so that the receiver can be the base of several
  derived selectors.
\<close>

theorem send_leaves_receiver:
  assumes "this < length h" and "send h this c = (h', r)"
  shows "(\<forall>a < length h. h' ! a = h ! a)
       \<and> snd (stringify_st h' this) = snd (stringify_st h this)
       \<and> (\<forall>a. r = Inr a \<longrightarrow>
             a \<noteq> this \<and> a = length h \<and> length h' = Suc (length h)
             \<and> invoke (h ! this) (map_call (\<lambda>a. h ! a) c) = Inr (h' ! a))
       \<and> (\<forall>c2. (\<forall>a \<in> set_call c2. a < length h) \<longrightarrow>
             outcome h' this c2 = outcome h this c2)"
proof -
  from send_store [OF assms(2)]
  have shape: "(h' = h \<and> (\<exists>e. r = Inl e)) \<or> (\<exists>b. h' = h @ [b] \<and> r = Inr (length h))" .
  then have frame: "\<forall>a < length h. h' ! a = h ! a"
    by (auto simp: nth_append)
  from frame assms(1) have same: "snd (stringify_st h' this) = snd (stringify_st h this)"
    by (simp add: stringify_st_def)
  have fresh: "\<forall>a. r = Inr a \<longrightarrow>
             a \<noteq> this \<and> a = length h \<and> length h' = Suc (length h)
             \<and> invoke (h ! this) (map_call (\<lambda>a. h ! a) c) = Inr (h' ! a)"
    using shape assms by (auto simp: send_invoke split: sum.splits)
  have reuse: "outcome h' this c2 = outcome h this c2"
    if v: "\<forall>a \<in> set_call c2. a < length h" for c2
  proof -
    from v frame have "map_call (\<lambda>a. h' ! a) c2 = map_call (\<lambda>a. h ! a) c2"
      by (intro call.map_cong) auto
    with frame assms(1) show ?thesis by (simp add: outcome_invoke)
  qed
  from frame same fresh reuse show ?thesis by blast
qed

theorem send_leaves_receiver_witness:
  "(0::nat) < length [cssSelectorBuilder]
   \<and> send [cssSelectorBuilder] 0 (Class ''x'') =
       ([cssSelectorBuilder, cssSelectorBuilder\<lparr> total := ''.x'', prev := ''class'' \<rparr>], Inr 1)
   \<and> snd (stringify_st
       [cssSelectorBuilder, cssSelectorBuilder\<lparr> total := ''.x'', prev := ''class'' \<rparr>] 0) =
     snd (stringify_st [cssSelectorBuilder] 0)
   \<and> outcome [cssSelectorBuilder, cssSelectorBuilder\<lparr> total := ''.x'', prev := ''class'' \<rparr>]
       0 (Class ''y'') =
     outcome [cssSelectorBuilder] 0 (Class ''y'')"
proof -
  have s: "send [cssSelectorBuilder] 0 (Class ''x'') =
       ([cssSelectorBuilder, cssSelectorBuilder\<lparr> total := ''.x'', prev := ''class'' \<rparr>], Inr 1)"
    by (simp add: class_st_def new_object_def cssSelectorBuilder_def)
  have l: "(0::nat) < length [cssSelectorBuilder]" by simp
  have v: "\<forall>a \<in> set_call (Class ''y'' :: nat call). a < length [cssSelectorBuilder]" by simp
  from send_leaves_receiver [OF l s] s l v show ?thesis by blast
qed

text \<open>
  C4. \<open>combine\<close> has no failing branch, whatever the two selectors and the receiver
  are, and no check at all: the text of its result is the text of the first selector,
  a space, the combinator as given, a space, and the text of the second selector.
  With the selectors \<open>element('div').id('main')\<close> and \<open>element('table').id('data')\<close> and
  the combinator \<open>+\<close> the text is \<open>div#main + table#data\<close>.
\<close>

theorem combine_text:
  "stringify (combine this A t B) = stringify A @ '' '' @ t @ '' '' @ stringify B
   \<and> (\<exists>r. invoke this (Combine A t B) = Inr r
          \<and> stringify r = stringify A @ '' '' @ t @ '' '' @ stringify B)
   \<and> (\<exists>a b. chain cssSelectorBuilder [Element ''div'', Id ''main''] = Inr a
          \<and> chain cssSelectorBuilder [Element ''table'', Id ''data''] = Inr b
          \<and> stringify (combine cssSelectorBuilder a ''+'' b) = ''div#main + table#data'')"
  by (simp add: builder_defs cssSelectorBuilder_def)

text \<open>
  C5. On a builder reached from \<open>cssSelectorBuilder\<close> by a chain of calls,
  \<open>element(name)\<close> throws the duplicate error \<open>erAlrOc\<close> if the chain has an
  \<open>element\<close> call; otherwise it throws the order error \<open>erWOrd\<close> if the chain has added
  a fragment of any category; otherwise it succeeds and appends the bare name.
\<close>

theorem element_on_chain:
  assumes "chain cssSelectorBuilder cs = Inr b"
  shows "element b name =
     (if list_ex is_element cs then Inl (erAlrOc cssSelectorBuilder)
      else if list_ex is_add cs then Inl (erWOrd cssSelectorBuilder)
      else Inr (b\<lparr> prev := ''elem'', elOc := True, total := total b @ name \<rparr>))"
  using chain_errors_kept [OF assms] chain_elOc [OF assms] chain_prev_empty [OF assms]
  by (simp add: element_def cssSelectorBuilder_def)

theorem element_on_chain_witness:
  "chain cssSelectorBuilder [Id ''x''] =
     Inr (cssSelectorBuilder\<lparr> total := ''#x'', prev := ''id'', idOc := True \<rparr>)
   \<and> element (cssSelectorBuilder\<lparr> total := ''#x'', prev := ''id'', idOc := True \<rparr>) ''a'' =
     Inl (erWOrd cssSelectorBuilder)
   \<and> chain cssSelectorBuilder [Element ''a''] =
     Inr (cssSelectorBuilder\<lparr> total := ''a'', prev := ''elem'', elOc := True \<rparr>)
   \<and> element (cssSelectorBuilder\<lparr> total := ''a'', prev := ''elem'', elOc := True \<rparr>) ''b'' =
     Inl (erAlrOc cssSelectorBuilder)
   \<and> chain cssSelectorBuilder [] = Inr cssSelectorBuilder
   \<and> element cssSelectorBuilder ''a'' =
     Inr (cssSelectorBuilder\<lparr> total := ''a'', prev := ''elem'', elOc := True \<rparr>)"
proof -
  have c1: "chain cssSelectorBuilder [Id ''x''] =
     Inr (cssSelectorBuilder\<lparr> total := ''#x'', prev := ''id'', idOc := True \<rparr>)"
    by (simp add: id'_def cssSelectorBuilder_def)
  have c2: "chain cssSelectorBuilder [Element ''a''] =
     Inr (cssSelectorBuilder\<lparr> total := ''a'', prev := ''elem'', elOc := True \<rparr>)"
    by (simp add: element_def cssSelectorBuilder_def)
  have c3: "chain cssSelectorBuilder [] = Inr cssSelectorBuilder"
    by simp
  have e3: "total cssSelectorBuilder = ''''"
    by (simp add: cssSelectorBuilder_def)
  from element_on_chain [OF c1, of "''a''"] element_on_chain [OF c2, of "''b''"]
    element_on_chain [OF c3, of "''a''"] c1 c2 c3 e3
  show ?thesis by simp
qed

text \<open>
  C9. The result of \<open>combine\<close> has the flags \<open>elOc\<close>, \<open>idOc\<close>, \<open>pElOc\<close> and the marker
  \<open>prev\<close> of its receiver, whatever the two selectors hold. Called on
  \<open>cssSelectorBuilder\<close> the result has no flag set and an empty marker, so each of the
  six add-operations succeeds on it, \<open>element\<close> included, and appends its fragment to
  the end of the combined text.
\<close>

theorem combine_keeps_receiver_state:
  "elOc (combine this A t B) = elOc this
   \<and> idOc (combine this A t B) = idOc this
   \<and> pElOc (combine this A t B) = pElOc this
   \<and> prev (combine this A t B) = prev this
   \<and> combine cssSelectorBuilder A t B =
       cssSelectorBuilder\<lparr> total := total A @ '' '' @ t @ '' '' @ total B \<rparr>
   \<and> element (combine cssSelectorBuilder A t B) v =
       Inr (cssSelectorBuilder\<lparr> prev := ''elem'', elOc := True,
              total := total A @ '' '' @ t @ '' '' @ total B @ v \<rparr>)
   \<and> id' (combine cssSelectorBuilder A t B) v =
       Inr (cssSelectorBuilder\<lparr> prev := ''id'', idOc := True,
              total := total A @ '' '' @ t @ '' '' @ total B @ ''#'' @ v \<rparr>)
   \<and> class' (combine cssSelectorBuilder A t B) v =
       Inr (cssSelectorBuilder\<lparr> prev := ''class'',
              total := total A @ '' '' @ t @ '' '' @ total B @ ''.'' @ v \<rparr>)
   \<and> attr (combine cssSelectorBuilder A t B) v =
       Inr (cssSelectorBuilder\<lparr> prev := ''attr'',
              total := total A @ '' '' @ t @ '' '' @ total B @ ''['' @ v @ '']'' \<rparr>)
   \<and> pseudoClass (combine cssSelectorBuilder A t B) v =
       Inr (cssSelectorBuilder\<lparr> prev := ''pseudoClass'',
              total := total A @ '' '' @ t @ '' '' @ total B @ '':'' @ v \<rparr>)
   \<and> pseudoElement (combine cssSelectorBuilder A t B) v =
       Inr (cssSelectorBuilder\<lparr> prev := ''pseudoElem'', pElOc := True,
              total := total A @ '' '' @ t @ '' '' @ total B @ ''::'' @ v \<rparr>)"
  by (simp add: builder_defs cssSelectorBuilder_def)

text \<open>
  C10. In \<open>element\<close> and \<open>id\<close> the test of the occurrence flag comes first: on a builder
  whose element flag is set and whose marker is not empty, \<open>element\<close> throws the
  duplicate error \<open>erAlrOc\<close>, not the order error; on a builder whose id flag is set and
  whose marker is class, attribute, pseudo-class or pseudo-element, \<open>id\<close> throws the
  duplicate error.
\<close>

theorem duplicate_before_order:
  "(elOc b \<and> prev b \<noteq> '''' \<longrightarrow> element b v = Inl (erAlrOc b))
   \<and> (idOc b \<and> prev b \<in> {''class'', ''attr'', ''pseudoClass'', ''pseudoElem''}
        \<longrightarrow> id' b v = Inl (erAlrOc b))"
  by (simp add: element_def id'_def)

theorem duplicate_before_order_witness:
  "chain cssSelectorBuilder [Element ''a'', Class ''c''] =
     Inr (cssSelectorBuilder\<lparr> total := ''a.c'', prev := ''class'', elOc := True \<rparr>)
   \<and> element (cssSelectorBuilder\<lparr> total := ''a.c'', prev := ''class'', elOc := True \<rparr>) ''b'' =
     Inl (erAlrOc cssSelectorBuilder)
   \<and> erAlrOc cssSelectorBuilder \<noteq> erWOrd cssSelectorBuilder
   \<and> chain cssSelectorBuilder [Id ''i'', Class ''c''] =
     Inr (cssSelectorBuilder\<lparr> total := ''#i.c'', prev := ''class'', idOc := True \<rparr>)
   \<and> id' (cssSelectorBuilder\<lparr> total := ''#i.c'', prev := ''class'', idOc := True \<rparr>) ''j'' =
     Inl (erAlrOc cssSelectorBuilder)"
proof -
  let ?b1 = "cssSelectorBuilder\<lparr> total := ''a.c'', prev := ''class'', elOc := True \<rparr>"
  let ?b2 = "cssSelectorBuilder\<lparr> total := ''#i.c'', prev := ''class'', idOc := True \<rparr>"
  have c1: "chain cssSelectorBuilder [Element ''a'', Class ''c''] = Inr ?b1"
    by (simp add: element_def class'_def cssSelectorBuilder_def)
  have c2: "chain cssSelectorBuilder [Id ''i'', Class ''c''] = Inr ?b2"
    by (simp add: id'_def class'_def cssSelectorBuilder_def)
  have h1: "elOc ?b1 \<and> prev ?b1 \<noteq> ''''" by simp
  have h2: "idOc ?b2 \<and> prev ?b2 \<in> {''class'', ''attr'', ''pseudoClass'', ''pseudoElem''}"
    by simp
  have d: "erAlrOc cssSelectorBuilder \<noteq> erWOrd cssSelectorBuilder"
    by (simp add: cssSelectorBuilder_def)
  from duplicate_before_order [of ?b1 "''b''"] duplicate_before_order [of ?b2 "''j''"]
    h1 h2 c1 c2 d
  show ?thesis by simp
qed

section \<open>Properties of Rectangle\<close>

text \<open>
  C7. For every width \<open>w\<close> and height \<open>h\<close> the constructed rectangle has exactly these
  two values as its width and height, and \<open>getArea\<close> returns their product. The product
  is taken from the properties as they are when \<open>getArea\<close> is called: after an
  assignment to \<open>width\<close> or \<open>height\<close> it is the product of the new values. The
  constructor has no check and no failing branch; zero and negative numbers are
  stored and multiplied like any other.
\<close>

theorem Rectangle_getArea:
  "width (Rectangle w h) = w
   \<and> height (Rectangle w h) = h
   \<and> getArea (Rectangle w h) = w * h
   \<and> getArea ((Rectangle w h)\<lparr> width := w' \<rparr>) = w' * h
   \<and> getArea ((Rectangle w h)\<lparr> height := h' \<rparr>) = w * h'
   \<and> getArea (Rectangle (0::int) (- 3)) = 0
   \<and> getArea (Rectangle (- 2::int) (- 3)) = 6"
  by (simp add: Rectangle_def getArea_def)

section \<open>Properties of the JSON helpers\<close>

lemma fromJSON_fails_iff:
  "fromJSON JSON_parse ms json = Inl e \<longleftrightarrow> JSON_parse json = Inl e"
  by (simp add: fromJSON_def split: sum.splits)

lemma update_fresh:
  "k \<notin> fst ` set al \<Longrightarrow> AList.update k v al = al @ [(k, v)]"
  by (induction al) auto

lemma assign_prop_plain:
  assumes "k \<noteq> ''__proto__''" and "k \<notin> fst ` set acc"
  shows "assign_prop \<lparr> proto = p, own = acc \<rparr> k v = \<lparr> proto = p, own = acc @ [(k, v)] \<rparr>"
  using assms by (simp add: assign_prop_def update_fresh)

lemma fold_assign_prop_plain:
  assumes "distinct (map fst (acc @ kvs))" and "''__proto__'' \<notin> fst ` set kvs"
  shows "fold (\<lambda>(k, v) t. assign_prop t k v) kvs \<lparr> proto = p, own = acc \<rparr> =
         \<lparr> proto = p, own = acc @ kvs \<rparr>"
  using assms
proof (induction kvs arbitrary: acc)
  case Nil
  then show ?case by simp
next
  case (Cons kv kvs)
  obtain k v where kv: "kv = (k, v)" by (cases kv)
  from Cons.prems kv have k: "k \<noteq> ''__proto__''" "k \<notin> fst ` set acc"
    by auto
  from Cons.prems kv have d: "distinct (map fst ((acc @ [(k, v)]) @ kvs))"
    by simp
  from Cons.prems have n: "''__proto__'' \<notin> fst ` set kvs"
    by simp
  from Cons.IH [OF d n] assign_prop_plain [OF k] kv show ?case
    by simp
qed

text \<open>
  The part of the round trip that holds: a parsed object with distinct keys, none of
  them \<open>__proto__\<close>, is copied property by property, and the result has the prototype
  passed in.
\<close>

lemma Object_assign_plain:
  assumes "distinct (map fst kvs)" and "''__proto__'' \<notin> fst ` set kvs"
  shows "Object_assign \<lparr> proto = p, own = [] \<rparr> (JObj kvs) = \<lparr> proto = p, own = kvs \<rparr>"
  using fold_assign_prop_plain [of "[]" kvs p] assms
  by (simp add: Object_assign_def)

lemma fromJSON_getJSON_plain:
  assumes "JSON_parse (JSON_stringify (JObj kvs)) = Inr (JObj kvs)"
    and "distinct (map fst kvs)" and "''__proto__'' \<notin> fst ` set kvs"
  shows "fromJSON JSON_parse ms (getJSON JSON_stringify (JObj kvs)) =
         Inr \<lparr> proto = ProtoOf ms, own = kvs \<rparr>"
  using assms by (simp add: fromJSON_def getJSON_def Object_assign_plain)

lemma fromJSON_radius:
  assumes \<open>JSON_parse ''{"radius":10}'' = Inr (JObj [(''radius'', JNum n)])\<close>
  shows \<open>fromJSON JSON_parse ms ''{"radius":10}'' =
         Inr \<lparr> proto = ProtoOf ms, own = [(''radius'', JNum n)] \<rparr>\<close>
  using assms by (simp add: fromJSON_def Object_assign_def assign_prop_def)

text \<open>
  C6. The claim: \<open>fromJSON(proto, getJSON(x))\<close> has the own data properties of \<open>x\<close> and the
  methods of \<open>proto\<close>, for every plain value \<open>x\<close>. Let \<open>x\<close> be the plain object with the two
  own properties \<open>__proto__: null\<close> and \<open>radius: 10\<close>, which \<open>JSON.stringify\<close> writes and
  \<open>JSON.parse\<close> reads back. \<open>Object.assign\<close> assigns \<open>res.__proto__ = null\<close>, which
  cuts the prototype link: the result has one own property instead of two and none
  of the methods of \<open>proto\<close>.
\<close>

theorem fromJSON_getJSON_proto_key:
  assumes "JSON_parse (JSON_stringify (JObj [(''__proto__'', JNull), (''radius'', JNum (10::int))])) =
           Inr (JObj [(''__proto__'', JNull), (''radius'', JNum 10)])"
  shows "fromJSON JSON_parse [''getArea'']
           (getJSON JSON_stringify (JObj [(''__proto__'', JNull), (''radius'', JNum (10::int))])) =
         Inr \<lparr> proto = ProtoNull, own = [(''radius'', JNum 10)] \<rparr>"
  using assms by (simp add: fromJSON_def getJSON_def Object_assign_def assign_prop_def)

theorem fromJSON_getJSON_proto_key_witness:
  \<open>fromJSON
     (\<lambda>s. if s = ''{"__proto__":null,"radius":10}''
           then Inr (JObj [(''__proto__'', JNull), (''radius'', JNum (10::int))])
           else Inl (SyntaxError ''Unexpected token''))
     [''getArea'']
     (getJSON (\<lambda>x. ''{"__proto__":null,"radius":10}'')
        (JObj [(''__proto__'', JNull), (''radius'', JNum (10::int))])) =
   Inr \<lparr> proto = ProtoNull, own = [(''radius'', JNum 10)] \<rparr>\<close>
  by (rule fromJSON_getJSON_proto_key) simp

text \<open>
  C8. The claim: \<open>fromJSON\<close> throws exactly when \<open>JSON.parse\<close> does (which is
  \<open>fromJSON_fails_iff\<close>), and every field of a valid text is passed through unchanged
  into the result. On the valid text \<open>{"radius":10,"__proto__":{"getArea":0}}\<close> the field
  \<open>__proto__\<close> is not passed through: the result has the single own property \<open>radius\<close>,
  and the parsed value of the field has replaced the prototype passed in.
\<close>

theorem fromJSON_proto_field_not_copied:
  assumes \<open>JSON_parse ''{"radius":10,"__proto__":{"getArea":0}}'' =
           Inr (JObj [(''radius'', JNum (10::int)), (''__proto__'', JObj [(''getArea'', JNum 0)])])\<close>
  shows \<open>fromJSON JSON_parse [''getArea''] ''{"radius":10,"__proto__":{"getArea":0}}'' =
         Inr \<lparr> proto = ProtoVal (JObj [(''getArea'', JNum 0)]), own = [(''radius'', JNum 10)] \<rparr>\<close>
  using assms by (simp add: fromJSON_def Object_assign_def assign_prop_def)

theorem fromJSON_proto_field_not_copied_witness:
  \<open>fromJSON
     (\<lambda>s. if s = ''{"radius":10,"__proto__":{"getArea":0}}''
           then Inr (JObj [(''radius'', JNum (10::int)), (''__proto__'', JObj [(''getArea'', JNum 0)])])
           else Inl (SyntaxError ''Unexpected token''))
     [''getArea'']
     ''{"radius":10,"__proto__":{"getArea":0}}'' =
   Inr \<lparr> proto = ProtoVal (JObj [(''getArea'', JNum 0)]), own = [(''radius'', JNum 10)] \<rparr>\<close>
  by (rule fromJSON_proto_field_not_copied) simp


end
